theory Spec2Isabelle
  imports Main "HOL-Library.Word"
begin

section \<open>Data model of the Instruction Lowerer\<close>

text \<open>
  The lowerer of \<^verbatim>\<open>CDMMCInstLower.cpp\<close> turns a machine instruction (opcode and
  operand list) into an emittable instruction. Globals, basic blocks and linker symbols
  are handles; the two symbol lookups of the source
  (\<^verbatim>\<open>AsmPrinter.getSymbol(MO.getGlobal())\<close> and \<^verbatim>\<open>MO.getMBB()->getSymbol()\<close>)
  are parameters of the model.
\<close>

type_synonym GlobalValue = string
type_synonym MCSymbol = string
type_synonym MBBHandle = nat

text \<open>
  Modelled from the spec: the declaration of the operand variant (\<^verbatim>\<open>MachineOperand\<close>
  and its \<^verbatim>\<open>MachineOperandType\<close> tags) is not among the sources. The kinds are the six
  of the spec's data model, under the tag names the lowerer uses, the two further tags
  that the lowerer names in its disabled cases, and \<open>MO_Other\<close> for any further tag.
  Registers are 32-bit ids, immediates and recorded offsets are 64-bit values read as signed.
\<close>

datatype MachineOperand =
    MO_Register "32 word"
  | MO_Immediate "64 word"
  | MO_FrameIndex int "64 word"
  | MO_MachineBasicBlock MBBHandle
  | MO_GlobalAddress GlobalValue "64 word"
  | MO_RegisterMask
  | MO_BlockAddress MBBHandle "64 word"
  | MO_JumpTableIndex int
  | MO_Other nat

record MachineInstr =
  MI_Opcode :: "32 word"
  MI_Operands :: "MachineOperand list"

datatype VariantKind = VK_None

datatype MCExpr =
    MCSymbolRefExpr MCSymbol VariantKind
  | MCConstantExpr "64 word"
  | MCBinaryExpr_Add MCExpr MCExpr

text \<open>A default-constructed \<^verbatim>\<open>MCOperand()\<close> is the invalid operand.\<close>

datatype MCOperand =
    MCOperand_Invalid
  | MCOperand_Reg "32 word"
  | MCOperand_Imm "64 word"
  | MCOperand_Expr MCExpr

record MCInst =
  Opcode :: "32 word"
  Operands :: "MCOperand list"

record AsmPrinterEnv =
  getSymbol :: "GlobalValue \<Rightarrow> MCSymbol"
  getMBBSymbol :: "MBBHandle \<Rightarrow> MCSymbol"

text \<open>The two ways the lowerer stops: \<^verbatim>\<open>llvm_unreachable\<close> and a failed \<^verbatim>\<open>assert\<close>.\<close>

datatype fatal = Unreachable string | AssertionFailed string

definition isValid :: "MCOperand \<Rightarrow> bool" where
  "isValid MCOp = (MCOp \<noteq> MCOperand_Invalid)"

definition setOpcode :: "32 word \<Rightarrow> MCInst \<Rightarrow> MCInst" where
  "setOpcode Op OutMI = OutMI\<lparr>Opcode := Op\<rparr>"

definition addOperand :: "MCOperand \<Rightarrow> MCInst \<Rightarrow> MCInst" where
  "addOperand MCOp OutMI = OutMI\<lparr>Operands := Operands OutMI @ [MCOp]\<rparr>"

section \<open>Symbol resolution\<close>

text \<open>
  \<^verbatim>\<open>Offset\<close> is an \<^verbatim>\<open>unsigned int\<close>. In \<^verbatim>\<open>Offset += MO.getOffset()\<close> it is
  widened to the 64-bit type of the recorded offset, the sum is taken there and is cut
  back to 32 bits by the assignment.
\<close>

definition addOffset :: "32 word \<Rightarrow> 64 word \<Rightarrow> 32 word" where
  "addOffset Offset off = ucast ((ucast Offset :: 64 word) + off)"

text \<open>The \<^verbatim>\<open>switch\<close> of \<^verbatim>\<open>LowerSymbolOperand\<close>: the symbol and the updated offset.\<close>

fun resolveSymbol :: "AsmPrinterEnv \<Rightarrow> MachineOperand \<Rightarrow> 32 word \<Rightarrow> fatal + (MCSymbol \<times> 32 word)" where
  "resolveSymbol env (MO_GlobalAddress g off) Offset = Inr (getSymbol env g, addOffset Offset off)"
| "resolveSymbol env (MO_MachineBasicBlock b) Offset = Inr (getMBBSymbol env b, Offset)"
| "resolveSymbol env _ Offset = Inl (Unreachable ''<unknown operand type>'')"

text \<open>
  The rest of \<^verbatim>\<open>LowerSymbolOperand\<close>: the symbol reference, and under \<^verbatim>\<open>if (Offset)\<close>
  the check \<^verbatim>\<open>assert(Offset > 0)\<close> on the unsigned value followed by the addition of the
  constant, which \<^verbatim>\<open>MCConstantExpr::create\<close> takes as a 64-bit value.
\<close>

definition buildSymbolExpr :: "MCSymbol \<Rightarrow> 32 word \<Rightarrow> fatal + MCOperand" where
  "buildSymbolExpr Symbol Offset =
     (let Expr = MCSymbolRefExpr Symbol VK_None in
      if Offset \<noteq> 0 then
        (if 0 < Offset
         then Inr (MCOperand_Expr (MCBinaryExpr_Add Expr (MCConstantExpr (ucast Offset))))
         else Inl (AssertionFailed ''Offset > 0''))
      else Inr (MCOperand_Expr Expr))"

definition LowerSymbolOperand :: "AsmPrinterEnv \<Rightarrow> MachineOperand \<Rightarrow> 32 word \<Rightarrow> fatal + MCOperand" where
  "LowerSymbolOperand env MO Offset =
     (case resolveSymbol env MO Offset of
        Inl e \<Rightarrow> Inl e
      | Inr (Symbol, Offset') \<Rightarrow> buildSymbolExpr Symbol Offset')"

section \<open>Operand and instruction lowering\<close>

fun LowerOperand :: "AsmPrinterEnv \<Rightarrow> MachineOperand \<Rightarrow> 32 word \<Rightarrow> fatal + MCOperand" where
  "LowerOperand env (MO_Register r) offset = Inr (MCOperand_Reg r)"
| "LowerOperand env (MO_Immediate i) offset = Inr (MCOperand_Imm i)"
| "LowerOperand env MO_RegisterMask offset = Inr MCOperand_Invalid"
| "LowerOperand env (MO_MachineBasicBlock b) offset = LowerSymbolOperand env (MO_MachineBasicBlock b) offset"
| "LowerOperand env (MO_GlobalAddress g off) offset = LowerSymbolOperand env (MO_GlobalAddress g off) offset"
| "LowerOperand env _ offset = Inl (Unreachable ''Unknown operand type'')"

text \<open>
  The loop of \<^verbatim>\<open>Lower\<close> over the operands, in order. \<^verbatim>\<open>LowerOperand(MO)\<close> is called with
  its default second argument, 0. An abort in an operand ends the loop.
\<close>

fun LowerLoop :: "AsmPrinterEnv \<Rightarrow> MachineOperand list \<Rightarrow> MCInst \<Rightarrow> fatal + MCInst" where
  "LowerLoop env [] OutMI = Inr OutMI"
| "LowerLoop env (MO # rest) OutMI =
     (case LowerOperand env MO 0 of
        Inl e \<Rightarrow> Inl e
      | Inr MCOp \<Rightarrow> LowerLoop env rest (if isValid MCOp then addOperand MCOp OutMI else OutMI))"

definition Lower :: "AsmPrinterEnv \<Rightarrow> MachineInstr \<Rightarrow> MCInst \<Rightarrow> fatal + MCInst" where
  "Lower env MI OutMI = LowerLoop env (MI_Operands MI) (setOpcode (MI_Opcode MI) OutMI)"

text \<open>The five operand kinds that reach the lowerer once frame indices are eliminated.\<close>

fun handledKind :: "MachineOperand \<Rightarrow> bool" where
  "handledKind (MO_Register r) = True"
| "handledKind (MO_Immediate i) = True"
| "handledKind MO_RegisterMask = True"
| "handledKind (MO_MachineBasicBlock b) = True"
| "handledKind (MO_GlobalAddress g off) = True"
| "handledKind _ = False"

text \<open>The operand that stands for \<open>symbol\<close> (addend 0) or \<open>symbol + addend\<close>.\<close>

definition symbolOperand :: "MCSymbol \<Rightarrow> 32 word \<Rightarrow> MCOperand" where
  "symbolOperand Symbol Offset =
     (if Offset = 0 then MCOperand_Expr (MCSymbolRefExpr Symbol VK_None)
      else MCOperand_Expr (MCBinaryExpr_Add (MCSymbolRefExpr Symbol VK_None) (MCConstantExpr (ucast Offset))))"

text \<open>
  What an operand of one of the five kinds stands for in the emittable instruction: a
  register or an immediate unchanged, a block or a global as a symbol expression (a
  global with its recorded offset, cut to 32 bits, as addend). A register mask and the
  other kinds stand for nothing, which the invalid operand marks.
\<close>

fun emittedOperand :: "AsmPrinterEnv \<Rightarrow> MachineOperand \<Rightarrow> MCOperand" where
  "emittedOperand env (MO_Register r) = MCOperand_Reg r"
| "emittedOperand env (MO_Immediate i) = MCOperand_Imm i"
| "emittedOperand env (MO_MachineBasicBlock b) = symbolOperand (getMBBSymbol env b) 0"
| "emittedOperand env (MO_GlobalAddress g off) = symbolOperand (getSymbol env g) (ucast off)"
| "emittedOperand env _ = MCOperand_Invalid"

text \<open>A symbol table and an instruction used to run the lowerer on concrete inputs.\<close>

definition exampleEnv :: AsmPrinterEnv where
  "exampleEnv = \<lparr>getSymbol = (\<lambda>g. g), getMBBSymbol = (\<lambda>b. if b = 0 then ''entry'' else ''LBB'')\<rparr>"

definition exampleMI :: MachineInstr where
  "exampleMI = \<lparr>MI_Opcode = 7, MI_Operands =
     [MO_Register 1, MO_RegisterMask, MO_Immediate 5, MO_GlobalAddress ''g'' 5, MO_MachineBasicBlock 2]\<rparr>"

definition emptyInst :: MCInst where
  "emptyInst = \<lparr>Opcode = 0, Operands = []\<rparr>"

section \<open>Frame lowering: call-frame pseudo instructions\<close>

text \<open>
  Modelled from the spec: \<^verbatim>\<open>MachineBasicBlock::erase\<close>, which
  \<^verbatim>\<open>eliminateCallFramePseudoInstr\<close> calls, is not among the sources. A basic block is
  the list of its instructions and an iterator is a position in it. Erasing deletes the
  instruction at the position with no replacement and returns the position of the
  instruction that followed; a position past the last instruction names no instruction.
\<close>

type_synonym MachineBasicBlock = "MachineInstr list"

definition MBB_erase :: "MachineBasicBlock \<Rightarrow> nat \<Rightarrow> (MachineBasicBlock \<times> nat) option" where
  "MBB_erase MBB MI = (if MI < length MBB then Some (take MI MBB @ drop (Suc MI) MBB, MI) else None)"

text \<open>The function ignores its \<^verbatim>\<open>MachineFunction\<close> argument.\<close>

definition eliminateCallFramePseudoInstr :: "'mf \<Rightarrow> MachineBasicBlock \<Rightarrow> nat \<Rightarrow> (MachineBasicBlock \<times> nat) option" where
  "eliminateCallFramePseudoInstr MF MBB MI = MBB_erase MBB MI"

section \<open>Register info: frame-index elimination\<close>

text \<open>
  Modelled from the spec: the body of \<^verbatim>\<open>CDMRegisterInfo::eliminateFrameIndex\<close> is not
  among the sources, only its declaration
  \<^verbatim>\<open>bool eliminateFrameIndex(MachineBasicBlock::iterator MI, int SPAdj, unsigned FIOperandNum, RegScavenger *RS)\<close>.
  The spec: the operand \<open>FrameIndex(slot, offset)\<close> is rewritten to
  \<open>Register(base) + Immediate(concrete offset)\<close> with
  \<open>concrete offset = frame_layout[slot] + offset + stack_adjustment\<close>; if the concrete
  offset exceeds the encodable immediate range, an address-materialization instruction is
  inserted immediately before and the memory operand is redirected to the materialized
  address register. The frame layout, the frame base register, the immediate range, the
  register that receives a materialized address and the opcode of the materialization
  instruction come from the architecture description and are parameters. The spec does
  not say what the boolean result is; the model returns the rewritten block, or nothing
  when the position, the operand number or the slot names nothing to rewrite.
\<close>

record FrameInfo =
  frame_layout :: "int \<rightharpoonup> 64 word"
  FrameReg :: "32 word"
  ImmMin :: int
  ImmMax :: int
  AddrReg :: "32 word"
  MaterializeOpc :: "32 word"

definition concreteOffset :: "64 word \<Rightarrow> 64 word \<Rightarrow> 32 word \<Rightarrow> 64 word" where
  "concreteOffset slotOffset offset SPAdj = slotOffset + offset + scast SPAdj"

definition inImmRange :: "FrameInfo \<Rightarrow> 64 word \<Rightarrow> bool" where
  "inImmRange F c = (ImmMin F \<le> sint c \<and> sint c \<le> ImmMax F)"

definition replaceOperand :: "MachineInstr \<Rightarrow> nat \<Rightarrow> MachineOperand list \<Rightarrow> MachineInstr" where
  "replaceOperand I n new = I\<lparr>MI_Operands := take n (MI_Operands I) @ new @ drop (Suc n) (MI_Operands I)\<rparr>"

definition materialize :: "FrameInfo \<Rightarrow> 64 word \<Rightarrow> MachineInstr" where
  "materialize F c = \<lparr>MI_Opcode = MaterializeOpc F,
     MI_Operands = [MO_Register (AddrReg F), MO_Register (FrameReg F), MO_Immediate c]\<rparr>"

definition eliminateFrameIndex :: "FrameInfo \<Rightarrow> MachineBasicBlock \<Rightarrow> nat \<Rightarrow> 32 word \<Rightarrow> nat \<Rightarrow> MachineBasicBlock option" where
  "eliminateFrameIndex F MBB MI SPAdj FIOperandNum =
     (if MI < length MBB \<and> FIOperandNum < length (MI_Operands (MBB ! MI)) then
        (case MI_Operands (MBB ! MI) ! FIOperandNum of
           MO_FrameIndex slot offset \<Rightarrow>
             (case frame_layout F slot of
                None \<Rightarrow> None
              | Some slotOffset \<Rightarrow>
                  let c = concreteOffset slotOffset offset SPAdj in
                  if inImmRange F c
                  then Some (MBB[MI := replaceOperand (MBB ! MI) FIOperandNum
                                         [MO_Register (FrameReg F), MO_Immediate c]])
                  else Some (take MI MBB
                             @ [materialize F c,
                                replaceOperand (MBB ! MI) FIOperandNum
                                  [MO_Register (AddrReg F), MO_Immediate 0]]
                             @ drop (Suc MI) MBB))
         | _ \<Rightarrow> None)
      else None)"

text \<open>
  Modelled from the spec: the spec speaks of the effective address of the rewritten
  operand and gives no semantics of instructions. A register file gives each register a 64-bit value,
  a memory operand \<open>Register(r) + Immediate(c)\<close> at operand position \<open>n\<close> addresses
  \<open>regs r + c\<close>, and the materialization instruction writes base plus constant into its
  first register.
\<close>

type_synonym regfile = "32 word \<Rightarrow> 64 word"

definition memOperandAddress :: "regfile \<Rightarrow> MachineInstr \<Rightarrow> nat \<Rightarrow> 64 word option" where
  "memOperandAddress regs I n =
     (case drop n (MI_Operands I) of
        MO_Register r # MO_Immediate c # rest \<Rightarrow> Some (regs r + c)
      | _ \<Rightarrow> None)"

definition execMaterialize :: "FrameInfo \<Rightarrow> MachineInstr \<Rightarrow> regfile \<Rightarrow> regfile option" where
  "execMaterialize F I regs =
     (case MI_Operands I of
        [MO_Register d, MO_Register b, MO_Immediate c] \<Rightarrow>
          if MI_Opcode I = MaterializeOpc F then Some (regs(d := regs b + c)) else None
      | _ \<Rightarrow> None)"

definition exampleFrame :: FrameInfo where
  "exampleFrame = \<lparr>frame_layout = [0 \<mapsto> 8, 1 \<mapsto> 1000], FrameReg = 6, ImmMin = - 128, ImmMax = 127,
     AddrReg = 5, MaterializeOpc = 99\<rparr>"

definition exampleBlock :: MachineBasicBlock where
  "exampleBlock = [\<lparr>MI_Opcode = 1, MI_Operands = [MO_Register 0, MO_Immediate 3]\<rparr>,
                   \<lparr>MI_Opcode = 2, MI_Operands = [MO_Register 1, MO_FrameIndex 0 4]\<rparr>,
                   \<lparr>MI_Opcode = 2, MI_Operands = [MO_Register 2, MO_FrameIndex 1 4]\<rparr>]"

section \<open>Source-manager utilities of the language server\<close>

text \<open>
  \<^verbatim>\<open>SourceMgrUtils.cpp\<close> works on character pointers. Memory is a finite run of
  characters and a pointer is a position in it; position 0 is the null pointer. A read
  outside the memory is a fault of the model.
\<close>

type_synonym memory = "char list"

datatype fault = ReadOutsideMemory nat

definition deref :: "memory \<Rightarrow> nat \<Rightarrow> char option" where
  "deref mem p = (if 0 < p \<and> p < length mem then Some (mem ! p) else None)"

datatype SMLoc = SMLoc (getPointer: nat)

definition isValidLoc :: "SMLoc \<Rightarrow> bool" where
  "isValidLoc loc = (getPointer loc \<noteq> 0)"

record SMRange =
  Start :: SMLoc
  End :: SMLoc

text \<open>The default-constructed \<^verbatim>\<open>SMRange()\<close>: both ends are the null location.\<close>

definition emptyRange :: SMRange where
  "emptyRange = \<lparr>Start = SMLoc 0, End = SMLoc 0\<rparr>"

definition isHexDigit :: "char \<Rightarrow> bool" where
  "isHexDigit c = (c \<in> set ''0123456789abcdefABCDEF'')"

definition isalnum :: "char \<Rightarrow> bool" where
  "isalnum c = (c \<in> set ''0123456789abcdefghijklmnopqrstuvwxyzABCDEFGHIJKLMNOPQRSTUVWXYZ'')"

text \<open>
  \<^verbatim>\<open>lexLocStringTok\<close>: the loop \<^verbatim>\<open>while (char c = *curPtr++)\<close>. The characters
  \<open>0x22\<close>, \<open>0x0A\<close>, \<open>0x0B\<close>, \<open>0x0C\<close> are the double quote, newline, vertical tab and
  form feed; \<open>0x5C\<close> is the backslash.
\<close>

function lexLocStringTok :: "memory \<Rightarrow> nat \<Rightarrow> fault + nat" where
  "lexLocStringTok mem curPtr =
     (case deref mem curPtr of
        None \<Rightarrow> Inl (ReadOutsideMemory curPtr)
      | Some c \<Rightarrow>
          if c = CHR 0x00 then Inr curPtr
          else if c \<in> set [CHR 0x22, CHR 0x0A, CHR 0x0B, CHR 0x0C] then Inr (curPtr + 1)
          else if c = CHR 0x5C then
            (case deref mem (curPtr + 1) of
               None \<Rightarrow> Inl (ReadOutsideMemory (curPtr + 1))
             | Some d \<Rightarrow>
                 if d = CHR 0x22 \<or> d = CHR 0x5C \<or> d = CHR ''n'' \<or> d = CHR ''t''
                 then lexLocStringTok mem (curPtr + 2)
                 else if isHexDigit d then
                   (case deref mem (curPtr + 2) of
                      None \<Rightarrow> Inl (ReadOutsideMemory (curPtr + 2))
                    | Some d' \<Rightarrow>
                        if isHexDigit d' then lexLocStringTok mem (curPtr + 3)
                        else Inr (curPtr + 1))
                 else Inr (curPtr + 1))
          else lexLocStringTok mem (curPtr + 1))"
  by pat_completeness auto
termination
  by (relation "measure (\<lambda>(mem, curPtr). length mem - curPtr)")
     (auto simp: deref_def split: if_splits)

definition isIdentifierChar :: "string \<Rightarrow> char \<Rightarrow> bool" where
  "isIdentifierChar identifierChars c = (isalnum c \<or> c = CHR ''_'' \<or> c \<in> set identifierChars)"

text \<open>The loop \<^verbatim>\<open>while (*curPtr && isIdentifierChar(*(++curPtr))) continue;\<close>\<close>

function scanIdentifier :: "memory \<Rightarrow> string \<Rightarrow> nat \<Rightarrow> fault + nat" where
  "scanIdentifier mem identifierChars curPtr =
     (case deref mem curPtr of
        None \<Rightarrow> Inl (ReadOutsideMemory curPtr)
      | Some c \<Rightarrow>
          if c = CHR 0x00 then Inr curPtr
          else (case deref mem (curPtr + 1) of
                  None \<Rightarrow> Inl (ReadOutsideMemory (curPtr + 1))
                | Some d \<Rightarrow>
                    if isIdentifierChar identifierChars d
                    then scanIdentifier mem identifierChars (curPtr + 1)
                    else Inr (curPtr + 1)))"
  by pat_completeness auto
termination
  by (relation "measure (\<lambda>(mem, identifierChars, curPtr). length mem - curPtr)")
     (auto simp: deref_def split: if_splits)

definition convertTokenLocToRange :: "memory \<Rightarrow> SMLoc \<Rightarrow> string \<Rightarrow> fault + SMRange" where
  "convertTokenLocToRange mem loc identifierChars =
     (if \<not> isValidLoc loc then Inr emptyRange
      else
        let curPtr = getPointer loc in
        case deref mem curPtr of
          None \<Rightarrow> Inl (ReadOutsideMemory curPtr)
        | Some c \<Rightarrow>
            (case (if c = CHR 0x22 then lexLocStringTok mem (curPtr + 1)
                   else scanIdentifier mem identifierChars curPtr) of
               Inl f \<Rightarrow> Inl f
             | Inr endPtr \<Rightarrow> Inr \<lparr>Start = loc, End = SMLoc endPtr\<rparr>))"

subsection \<open>Gathering the include files\<close>

text \<open>
  The source manager and the path and URI helpers are not among the sources; the queries
  that \<^verbatim>\<open>gatherIncludeFiles\<close> makes are fields of two records. \<^verbatim>\<open>URIForFile::fromFile\<close>
  returns an error message or a URI.
\<close>

type_synonym URIForFile = string

record SourceMgr =
  getNumBuffers :: nat
  getMainFileID :: nat
  IncludeLoc :: "nat \<Rightarrow> SMLoc"
  getBufferIdentifier :: "nat \<Rightarrow> string"
  FindBufferContainingLoc :: "SMLoc \<Rightarrow> nat"
  Memory :: memory

record PathLib =
  remove_dots :: "string \<Rightarrow> string"
  is_absolute :: "string \<Rightarrow> bool"
  parent_path :: "string \<Rightarrow> string"
  fromFile :: "string \<Rightarrow> string + URIForFile"

text \<open>
  An include keeps its URI and the source range of the include token (the source converts
  that range to line and column with the source manager).
\<close>

record SourceMgrInclude =
  inc_uri :: URIForFile
  inc_range :: SMRange

text \<open>The path handed to \<^verbatim>\<open>URIForFile::fromFile\<close> for buffer \<open>i + 1\<close>.\<close>

definition includePath :: "PathLib \<Rightarrow> SourceMgr \<Rightarrow> nat \<Rightarrow> string" where
  "includePath L sm i =
     (let includeLoc = IncludeLoc sm (i + 1);
          path = remove_dots L (getBufferIdentifier sm (i + 1))
      in if \<not> is_absolute L path
         then parent_path L (getBufferIdentifier sm (FindBufferContainingLoc sm includeLoc)) @ ''/'' @ path
         else path)"

text \<open>
  \<^verbatim>\<open>while (*(--includeStart) != '"') continue;\<close> The pointer is decremented, then read.
\<close>

fun findQuoteBefore :: "memory \<Rightarrow> nat \<Rightarrow> fault + nat" where
  "findQuoteBefore mem 0 = Inl (ReadOutsideMemory 0)"
| "findQuoteBefore mem (Suc p) =
     (case deref mem p of
        None \<Rightarrow> Inl (ReadOutsideMemory p)
      | Some c \<Rightarrow> if c = CHR 0x22 then Inr p else findQuoteBefore mem p)"

text \<open>
  One round of the second loop of \<^verbatim>\<open>gatherIncludeFiles\<close>, for the loop variable \<open>i\<close>.
  The log lines of the function do not touch \<open>includes\<close> and are left out.
\<close>

definition gatherStep :: "PathLib \<Rightarrow> SourceMgr \<Rightarrow> nat \<Rightarrow> SourceMgrInclude list \<Rightarrow> fault + SourceMgrInclude list" where
  "gatherStep L sm i includes =
     (let includeLoc = IncludeLoc sm (i + 1) in
      if \<not> isValidLoc includeLoc \<or> FindBufferContainingLoc sm includeLoc \<noteq> getMainFileID sm
      then Inr includes
      else
        (case fromFile L (includePath L sm i) of
           Inl err \<Rightarrow> Inr includes
         | Inr includedFileURI \<Rightarrow>
             if getPointer includeLoc < 2 then Inl (ReadOutsideMemory 0)
             else
               (case findQuoteBefore (Memory sm) (getPointer includeLoc - 2) of
                  Inl f \<Rightarrow> Inl f
                | Inr includeStart \<Rightarrow>
                    Inr (includes @ [\<lparr>inc_uri = includedFileURI,
                                      inc_range = \<lparr>Start = SMLoc includeStart, End = includeLoc\<rparr>\<rparr>]))))"

fun gatherLoop :: "PathLib \<Rightarrow> SourceMgr \<Rightarrow> nat list \<Rightarrow> SourceMgrInclude list \<Rightarrow> fault + SourceMgrInclude list" where
  "gatherLoop L sm [] includes = Inr includes"
| "gatherLoop L sm (i # rest) includes =
     (case gatherStep L sm i includes of
        Inl f \<Rightarrow> Inl f
      | Inr includes' \<Rightarrow> gatherLoop L sm rest includes')"

text \<open>\<^verbatim>\<open>for (unsigned i = 1, e = sourceMgr.getNumBuffers(); i < e; ++i)\<close>\<close>

definition gatherIncludeFiles :: "PathLib \<Rightarrow> SourceMgr \<Rightarrow> SourceMgrInclude list \<Rightarrow> fault + SourceMgrInclude list" where
  "gatherIncludeFiles L sm includes = gatherLoop L sm [1..<getNumBuffers sm] includes"

text \<open>Whether building the URI for buffer \<open>i + 1\<close> fails.\<close>

definition uriFails :: "PathLib \<Rightarrow> SourceMgr \<Rightarrow> nat \<Rightarrow> bool" where
  "uriFails L sm i = (case fromFile L (includePath L sm i) of Inl err \<Rightarrow> True | Inr u \<Rightarrow> False)"

text \<open>
  A source manager with a main buffer and three included buffers, used to run the
  gathering on a concrete input. Memory holds \<open>"a" "b" "c"\<close> from position 1 on; the
  include locations are the positions after the closing quotes. No URI can be built for
  the second include.
\<close>

definition exampleLib :: PathLib where
  "exampleLib = \<lparr>remove_dots = (\<lambda>p. p), is_absolute = (\<lambda>p. take 1 p = ''/''),
     parent_path = (\<lambda>p. ''/src''),
     fromFile = (\<lambda>p. if p = ''/src/b.td'' then Inl ''no URI'' else Inr (''file://'' @ p))\<rparr>"

definition exampleMemory :: memory where
  "exampleMemory = [CHR ''?'', CHR 0x22, CHR ''a'', CHR 0x22, CHR '' '',
                    CHR 0x22, CHR ''b'', CHR 0x22, CHR '' '',
                    CHR 0x22, CHR ''c'', CHR 0x22, CHR 0x00]"

definition exampleSM :: SourceMgr where
  "exampleSM = \<lparr>getNumBuffers = 4, getMainFileID = 1,
     IncludeLoc = (\<lambda>i. if i = 2 then SMLoc 4 else if i = 3 then SMLoc 8
                         else if i = 4 then SMLoc 12 else SMLoc 0),
     getBufferIdentifier = (\<lambda>i. if i = 1 then ''/src/main.td'' else if i = 2 then ''a.td''
                                  else if i = 3 then ''b.td'' else ''/lib/c.td''),
     FindBufferContainingLoc = (\<lambda>loc. if 0 < getPointer loc \<and> getPointer loc \<le> 12 then 1 else 0),
     Memory = exampleMemory\<rparr>"

section \<open>Facts about the 32-bit addend\<close>

lemma addOffset_zero: "addOffset 0 off = ucast off"
  by (simp add: addOffset_def)

lemma addOffset_minus_one: "addOffset 0 (- 1) = 4294967295"
  unfolding addOffset_def by (simp add: unsigned_minus_1_eq_mask mask_eq_exp_minus_1)

lemma ucast_word_of_int_down:
  fixes n :: int
  shows "(ucast (word_of_int n :: 64 word) :: 32 word) = word_of_int n"
  by (simp add: word_eq_iff_unsigned [where ?'a = int] unsigned_ucast_eq uint_word_of_int_eq)

lemma ucast_word_of_int_up:
  fixes n :: int
  assumes "0 < n" "n < 2 ^ 32"
  shows "(ucast (word_of_int n :: 32 word) :: 64 word) = word_of_int n"
  using assms
  by (simp add: word_eq_iff_unsigned [where ?'a = int] unsigned_ucast_eq uint_word_of_int_eq
        take_bit_int_eq_self)

lemma word_of_int_nonzero:
  fixes n :: int
  assumes "0 < n" "n < 2 ^ 32"
  shows "(word_of_int n :: 32 word) \<noteq> 0"
  using assms by (simp add: word_of_int_eq_0_iff zdvd_not_zless)

section \<open>Facts about symbol resolution\<close>

lemma buildSymbolExpr_total: "buildSymbolExpr Symbol Offset = Inr (symbolOperand Symbol Offset)"
  by (simp add: buildSymbolExpr_def symbolOperand_def word_neq_0_conv)

lemma LowerSymbolOperand_GlobalAddress:
  "LowerSymbolOperand env (MO_GlobalAddress g off) Offset =
     Inr (symbolOperand (getSymbol env g) (addOffset Offset off))"
  by (simp add: LowerSymbolOperand_def buildSymbolExpr_total)

lemma LowerSymbolOperand_MachineBasicBlock:
  "LowerSymbolOperand env (MO_MachineBasicBlock b) Offset =
     Inr (symbolOperand (getMBBSymbol env b) Offset)"
  by (simp add: LowerSymbolOperand_def buildSymbolExpr_total)

lemma symbolOperand_valid: "symbolOperand Symbol Offset \<noteq> MCOperand_Invalid"
  by (simp add: symbolOperand_def)

lemma LowerOperand_handled:
  "handledKind MO \<Longrightarrow> \<exists>MCOp. LowerOperand env MO offset = Inr MCOp"
  by (cases MO) (simp_all add: LowerSymbolOperand_GlobalAddress LowerSymbolOperand_MachineBasicBlock)

lemma LowerOperand_unhandled:
  "\<not> handledKind MO \<Longrightarrow> LowerOperand env MO offset = Inl (Unreachable ''Unknown operand type'')"
  by (cases MO) simp_all

section \<open>Facts about the operand loop\<close>


lemma LowerLoop_lowered:
  "map (\<lambda>MO. LowerOperand env MO 0) ops = map Inr MCOps \<Longrightarrow>
   LowerLoop env ops OutMI = Inr (OutMI\<lparr>Operands := Operands OutMI @ filter isValid MCOps\<rparr>)"
proof (induction ops arbitrary: MCOps OutMI)
  case Nil
  then show ?case by simp
next
  case (Cons MO ops)
  then obtain x xs where M: "MCOps = x # xs" and x: "LowerOperand env MO 0 = Inr x"
    and xs: "map (\<lambda>MO. LowerOperand env MO 0) ops = map Inr xs"
    by (cases MCOps) auto
  show ?case
    by (simp add: M x Cons.IH [OF xs] addOperand_def)
qed

lemma handled_lowered:
  "list_all handledKind ops \<Longrightarrow> \<exists>MCOps. map (\<lambda>MO. LowerOperand env MO 0) ops = map Inr MCOps"
proof (induction ops)
  case Nil
  then show ?case by simp
next
  case (Cons MO ops)
  then obtain x xs where "LowerOperand env MO 0 = Inr x"
    and "map (\<lambda>MO. LowerOperand env MO 0) ops = map Inr xs"
    using LowerOperand_handled [of MO env 0] by auto
  then have "map (\<lambda>MO. LowerOperand env MO 0) (MO # ops) = map Inr (x # xs)" by simp
  then show ?case by blast
qed

lemma LowerLoop_unhandled:
  "\<not> list_all handledKind ops \<Longrightarrow> LowerLoop env ops OutMI = Inl (Unreachable ''Unknown operand type'')"
proof (induction ops arbitrary: OutMI)
  case Nil
  then show ?case by simp
next
  case (Cons MO ops)
  show ?case
  proof (cases "handledKind MO")
    case True
    then obtain x where "LowerOperand env MO 0 = Inr x"
      using LowerOperand_handled by blast
    moreover from True Cons.prems have "\<not> list_all handledKind ops" by simp
    ultimately show ?thesis by (simp add: Cons.IH)
  next
    case False
    then show ?thesis by (simp add: LowerOperand_unhandled)
  qed
qed

lemma LowerOperand_emitted:
  "handledKind MO \<Longrightarrow> LowerOperand env MO 0 = Inr (emittedOperand env MO)"
  by (cases MO)
     (simp_all add: LowerSymbolOperand_GlobalAddress LowerSymbolOperand_MachineBasicBlock addOffset_zero)

lemma emittedOperand_valid:
  "handledKind MO \<Longrightarrow> isValid (emittedOperand env MO) \<longleftrightarrow> MO \<noteq> MO_RegisterMask"
  by (cases MO) (simp_all add: isValid_def symbolOperand_valid)

lemma LowerLoop_emitted:
  "list_all handledKind ops \<Longrightarrow>
   LowerLoop env ops OutMI =
     Inr (OutMI\<lparr>Operands := Operands OutMI
            @ map (emittedOperand env) (filter (\<lambda>MO. MO \<noteq> MO_RegisterMask) ops)\<rparr>)"
proof (induction ops arbitrary: OutMI)
  case Nil
  then show ?case by simp
next
  case (Cons MO ops)
  then have h: "handledKind MO" and hs: "list_all handledKind ops" by simp_all
  show ?case
    using emittedOperand_valid [OF h, of env]
    by (simp add: LowerOperand_emitted [OF h] Cons.IH [OF hs] addOperand_def)
qed

lemma LowerLoop_Inr_handled: "LowerLoop env ops OutMI = Inr Out \<Longrightarrow> list_all handledKind ops"
  using LowerLoop_unhandled [of ops env OutMI] by auto

lemma emitted_kept_valid:
  "list_all handledKind ops \<Longrightarrow>
   list_all isValid (map (emittedOperand env) (filter (\<lambda>MO. MO \<noteq> MO_RegisterMask) ops))"
  by (induction ops) (simp_all add: emittedOperand_valid)

text \<open>The lowering of the example instruction, operand by operand.\<close>

lemma exampleMI_lowered:
  "map (\<lambda>MO. LowerOperand exampleEnv MO 0) (MI_Operands exampleMI) =
     map Inr [MCOperand_Reg 1, MCOperand_Invalid, MCOperand_Imm 5,
       MCOperand_Expr (MCBinaryExpr_Add (MCSymbolRefExpr ''g'' VK_None) (MCConstantExpr 5)),
       MCOperand_Expr (MCSymbolRefExpr ''LBB'' VK_None)]"
  by (simp add: exampleMI_def exampleEnv_def LowerSymbolOperand_GlobalAddress
        LowerSymbolOperand_MachineBasicBlock symbolOperand_def addOffset_zero)

section \<open>Facts about the include gathering\<close>

lemma uriFails_gatherStep:
  "uriFails L sm i \<Longrightarrow> gatherStep L sm i incs = Inr incs"
  by (simp add: uriFails_def gatherStep_def Let_def split: sum.splits)

lemma gatherLoop_filter:
  "gatherLoop L sm (filter (\<lambda>i. \<not> uriFails L sm i) idxs) incs = gatherLoop L sm idxs incs"
  by (induction idxs arbitrary: incs) (simp_all add: uriFails_gatherStep split: sum.splits)

section \<open>Claims about the Instruction Lowerer\<close>

text \<open>
  C1. The claim: a global-symbol operand with a negative recorded offset takes the fatal
  path, the non-negativity check aborts and no symbol expression is produced; addend
  \<open>-1\<close> aborts. In the source the addend is accumulated in an unsigned 32-bit value, so
  the check \<^verbatim>\<open>assert(Offset > 0)\<close> under \<^verbatim>\<open>if (Offset)\<close> cannot fail: at the operand
  with recorded offset \<open>-1\<close> symbol resolution returns the expression
  \<open>symbol + 4294967295\<close>.
\<close>

theorem LowerSymbolOperand_addend_minus_one:
  "LowerSymbolOperand exampleEnv (MO_GlobalAddress ''g'' (- 1)) 0 =
     Inr (MCOperand_Expr (MCBinaryExpr_Add (MCSymbolRefExpr ''g'' VK_None) (MCConstantExpr 4294967295)))"
proof -
  have "symbolOperand ''g'' 4294967295 =
      MCOperand_Expr (MCBinaryExpr_Add (MCSymbolRefExpr ''g'' VK_None) (MCConstantExpr 4294967295))"
    by (simp add: symbolOperand_def)
  moreover have "getSymbol exampleEnv ''g'' = ''g''"
    by (simp add: exampleEnv_def)
  ultimately show ?thesis
    by (simp only: LowerSymbolOperand_GlobalAddress addOffset_minus_one)
qed

text \<open>
  C3. The lowerer runs after frame-index elimination, when every operand of a machine
  instruction is of one of the five kinds Register, Immediate, RegisterMask,
  BasicBlockRef and GlobalSymbolRef. For every such instruction \<open>Lower\<close> returns an
  emittable instruction with the opcode of the input; every operand is lowered on its
  own by \<open>LowerOperand\<close> at offset 0, and the valid results are appended to the operands
  of the output in the order of the input. A register becomes a register reference and
  an immediate an immediate value.
\<close>

theorem Lower_translates_operands:
  assumes "list_all handledKind (MI_Operands MI)"
  shows "\<exists>MCOps. map (\<lambda>MO. LowerOperand env MO 0) (MI_Operands MI) = map Inr MCOps
           \<and> Lower env MI OutMI =
               Inr (OutMI\<lparr>Opcode := MI_Opcode MI, Operands := Operands OutMI @ filter isValid MCOps\<rparr>)
           \<and> (\<forall>r. LowerOperand env (MO_Register r) 0 = Inr (MCOperand_Reg r))
           \<and> (\<forall>i. LowerOperand env (MO_Immediate i) 0 = Inr (MCOperand_Imm i))"
proof -
  from handled_lowered [OF assms] obtain MCOps
    where M: "map (\<lambda>MO. LowerOperand env MO 0) (MI_Operands MI) = map Inr MCOps" ..
  have "Lower env MI OutMI =
          Inr (OutMI\<lparr>Opcode := MI_Opcode MI, Operands := Operands OutMI @ filter isValid MCOps\<rparr>)"
    by (simp add: Lower_def LowerLoop_lowered [OF M] setOpcode_def)
  with M show ?thesis by auto
qed

text \<open>The example instruction is lowered to opcode 7 with four operands.\<close>

theorem Lower_translates_operands_witness:
  "list_all handledKind (MI_Operands exampleMI)
   \<and> Lower exampleEnv exampleMI emptyInst =
       Inr \<lparr>Opcode = 7, Operands =
         [MCOperand_Reg 1, MCOperand_Imm 5,
          MCOperand_Expr (MCBinaryExpr_Add (MCSymbolRefExpr ''g'' VK_None) (MCConstantExpr 5)),
          MCOperand_Expr (MCSymbolRefExpr ''LBB'' VK_None)]\<rparr>"
proof -
  have h: "list_all handledKind (MI_Operands exampleMI)"
    by (simp add: exampleMI_def)
  from Lower_translates_operands [OF h, of exampleEnv emptyInst] obtain MCOps
    where M: "map (\<lambda>MO. LowerOperand exampleEnv MO 0) (MI_Operands exampleMI) = map Inr MCOps"
      and L: "Lower exampleEnv exampleMI emptyInst =
               Inr (emptyInst\<lparr>Opcode := MI_Opcode exampleMI,
                              Operands := Operands emptyInst @ filter isValid MCOps\<rparr>)"
    by blast
  from M have "MCOps = [MCOperand_Reg 1, MCOperand_Invalid, MCOperand_Imm 5,
            MCOperand_Expr (MCBinaryExpr_Add (MCSymbolRefExpr ''g'' VK_None) (MCConstantExpr 5)),
            MCOperand_Expr (MCSymbolRefExpr ''LBB'' VK_None)]"
    by (simp only: exampleMI_lowered inj_map_eq_map [OF inj_Inr])
  with L h show ?thesis
    by (simp add: emptyInst_def exampleMI_def isValid_def)
qed

text \<open>
  C4. Lowering drops each register-mask operand. Whenever \<open>Lower\<close> returns an emittable
  instruction (it does for operands of the five handled kinds), the operands it has
  added are those of the input without the register masks, each as its emitted form
  (register, immediate or symbol expression), in the order of the input, and every one
  of them is a valid operand: no register mask and no frame index is among them.
\<close>

theorem Lower_drops_RegisterMask:
  "(list_all handledKind (MI_Operands MI) \<longrightarrow> (\<exists>Out. Lower env MI OutMI = Inr Out))
   \<and> (\<forall>Out. Lower env MI OutMI = Inr Out \<longrightarrow>
         Operands Out = Operands OutMI
            @ map (emittedOperand env) (filter (\<lambda>MO. MO \<noteq> MO_RegisterMask) (MI_Operands MI))
         \<and> list_all isValid
             (map (emittedOperand env) (filter (\<lambda>MO. MO \<noteq> MO_RegisterMask) (MI_Operands MI)))
         \<and> length (Operands Out) =
             length (Operands OutMI) + length (filter (\<lambda>MO. MO \<noteq> MO_RegisterMask) (MI_Operands MI)))"
proof (intro conjI impI allI)
  assume "list_all handledKind (MI_Operands MI)"
  then show "\<exists>Out. Lower env MI OutMI = Inr Out"
    by (simp add: Lower_def LowerLoop_emitted)
next
  fix Out
  assume L: "Lower env MI OutMI = Inr Out"
  then have h: "list_all handledKind (MI_Operands MI)"
    by (auto simp: Lower_def dest: LowerLoop_Inr_handled)
  from L show O: "Operands Out = Operands OutMI
            @ map (emittedOperand env) (filter (\<lambda>MO. MO \<noteq> MO_RegisterMask) (MI_Operands MI))"
    by (auto simp: Lower_def LowerLoop_emitted [OF h] setOpcode_def)
  show "list_all isValid
             (map (emittedOperand env) (filter (\<lambda>MO. MO \<noteq> MO_RegisterMask) (MI_Operands MI)))"
    by (rule emitted_kept_valid [OF h])
  show "length (Operands Out) =
             length (Operands OutMI) + length (filter (\<lambda>MO. MO \<noteq> MO_RegisterMask) (MI_Operands MI))"
    by (simp add: O)
qed

text \<open>The register mask of the example instruction is dropped, the other four operands stay.\<close>

theorem Lower_drops_RegisterMask_witness:
  "list_all handledKind (MI_Operands exampleMI)
   \<and> (\<exists>Out. Lower exampleEnv exampleMI emptyInst = Inr Out
         \<and> Operands Out =
             [MCOperand_Reg 1, MCOperand_Imm 5,
              MCOperand_Expr (MCBinaryExpr_Add (MCSymbolRefExpr ''g'' VK_None) (MCConstantExpr 5)),
              MCOperand_Expr (MCSymbolRefExpr ''LBB'' VK_None)])"
proof -
  have h: "list_all handledKind (MI_Operands exampleMI)"
    by (simp add: exampleMI_def)
  from Lower_drops_RegisterMask [of exampleMI exampleEnv emptyInst] h
  obtain Out where L: "Lower exampleEnv exampleMI emptyInst = Inr Out"
    and O: "Operands Out = Operands emptyInst
        @ map (emittedOperand exampleEnv) (filter (\<lambda>MO. MO \<noteq> MO_RegisterMask) (MI_Operands exampleMI))"
    by blast
  have "Operands emptyInst
        @ map (emittedOperand exampleEnv) (filter (\<lambda>MO. MO \<noteq> MO_RegisterMask) (MI_Operands exampleMI))
      = [MCOperand_Reg 1, MCOperand_Imm 5,
              MCOperand_Expr (MCBinaryExpr_Add (MCSymbolRefExpr ''g'' VK_None) (MCConstantExpr 5)),
              MCOperand_Expr (MCSymbolRefExpr ''LBB'' VK_None)]"
    by (simp add: emptyInst_def exampleMI_def exampleEnv_def symbolOperand_def)
  with h L O show ?thesis by simp
qed

text \<open>
  C6, as amended. Lowering a global-symbol operand with recorded addend 0 gives the bare
  symbol expression, addend 5 gives \<open>symbol + 5\<close>, and every positive addend \<open>n\<close>
  below \<open>2 ^ 32\<close> gives the binary expression \<open>symbol + n\<close>.
\<close>

theorem LowerOperand_global_addend:
  "LowerOperand env (MO_GlobalAddress g 0) 0 =
     Inr (MCOperand_Expr (MCSymbolRefExpr (getSymbol env g) VK_None))
   \<and> LowerOperand env (MO_GlobalAddress g 5) 0 =
       Inr (MCOperand_Expr (MCBinaryExpr_Add (MCSymbolRefExpr (getSymbol env g) VK_None) (MCConstantExpr 5)))
   \<and> (\<forall>n :: int. 0 < n \<and> n < 2 ^ 32 \<longrightarrow>
         LowerOperand env (MO_GlobalAddress g (word_of_int n)) 0 =
           Inr (MCOperand_Expr (MCBinaryExpr_Add (MCSymbolRefExpr (getSymbol env g) VK_None)
                                  (MCConstantExpr (word_of_int n)))))"
proof (intro conjI allI impI)
  show "LowerOperand env (MO_GlobalAddress g 0) 0 =
     Inr (MCOperand_Expr (MCSymbolRefExpr (getSymbol env g) VK_None))"
    by (simp add: LowerSymbolOperand_GlobalAddress symbolOperand_def addOffset_zero)
  show "LowerOperand env (MO_GlobalAddress g 5) 0 =
       Inr (MCOperand_Expr (MCBinaryExpr_Add (MCSymbolRefExpr (getSymbol env g) VK_None) (MCConstantExpr 5)))"
    by (simp add: LowerSymbolOperand_GlobalAddress symbolOperand_def addOffset_zero)
next
  fix n :: int
  assume n: "0 < n \<and> n < 2 ^ 32"
  then have nz: "(word_of_int n :: 32 word) \<noteq> 0"
    and up: "(ucast (word_of_int n :: 32 word) :: 64 word) = word_of_int n"
    by (simp_all add: word_of_int_nonzero ucast_word_of_int_up)
  show "LowerOperand env (MO_GlobalAddress g (word_of_int n)) 0 =
           Inr (MCOperand_Expr (MCBinaryExpr_Add (MCSymbolRefExpr (getSymbol env g) VK_None)
                                  (MCConstantExpr (word_of_int n))))"
    by (simp add: LowerSymbolOperand_GlobalAddress symbolOperand_def addOffset_zero
          ucast_word_of_int_down nz up)
qed

text \<open>The addend 1000 lies in the range and gives \<open>symbol + 1000\<close>.\<close>

theorem LowerOperand_global_addend_witness:
  "(0 :: int) < 1000 \<and> (1000 :: int) < 2 ^ 32
   \<and> LowerOperand exampleEnv (MO_GlobalAddress ''g'' (word_of_int 1000)) 0 =
       Inr (MCOperand_Expr (MCBinaryExpr_Add (MCSymbolRefExpr ''g'' VK_None)
                              (MCConstantExpr (word_of_int 1000))))"
proof -
  have r: "(0 :: int) < 1000 \<and> (1000 :: int) < 2 ^ 32" by simp
  have s: "getSymbol exampleEnv ''g'' = ''g''" by (simp add: exampleEnv_def)
  from LowerOperand_global_addend [of exampleEnv "''g''"] r
  have "LowerOperand exampleEnv (MO_GlobalAddress ''g'' (word_of_int 1000)) 0 =
           Inr (MCOperand_Expr (MCBinaryExpr_Add (MCSymbolRefExpr (getSymbol exampleEnv ''g'') VK_None)
                                  (MCConstantExpr (word_of_int 1000))))"
    by blast
  with r s show ?thesis by (simp only: simp_thms)
qed

text \<open>
  For every positive addend the statement fails: the addend \<open>2 ^ 32 = 4294967296\<close> is
  cut to 0 by the 32-bit accumulator and the result is the bare symbol.
\<close>

theorem LowerOperand_addend_two_to_32:
  "LowerOperand exampleEnv (MO_GlobalAddress ''g'' 4294967296) 0 =
       Inr (MCOperand_Expr (MCSymbolRefExpr ''g'' VK_None))
   \<and> LowerOperand exampleEnv (MO_GlobalAddress ''g'' 4294967296) 0 \<noteq>
       Inr (MCOperand_Expr (MCBinaryExpr_Add (MCSymbolRefExpr ''g'' VK_None) (MCConstantExpr 4294967296)))"
  by (simp add: LowerSymbolOperand_GlobalAddress symbolOperand_def addOffset_zero exampleEnv_def)

text \<open>
  C7. An operand whose kind is not Register, Immediate, RegisterMask, BasicBlockRef or
  GlobalSymbolRef is a fatal error of the lowerer: \<open>LowerOperand\<close> (and
  \<open>LowerSymbolOperand\<close>) stop in \<^verbatim>\<open>llvm_unreachable\<close> and produce no operand. Operand
  lowering aborts for no operand of the five kinds, and \<open>Lower\<close> aborts exactly when
  the instruction has an operand of another kind.
\<close>

theorem LowerOperand_aborts_iff_unhandled:
  "(\<not> handledKind MO \<longrightarrow>
       LowerOperand env MO offset = Inl (Unreachable ''Unknown operand type'')
       \<and> LowerSymbolOperand env MO offset = Inl (Unreachable ''<unknown operand type>''))
   \<and> (handledKind MO \<longrightarrow> (\<exists>MCOp. LowerOperand env MO offset = Inr MCOp))
   \<and> ((\<exists>e. Lower env MI OutMI = Inl e) \<longleftrightarrow> (\<exists>MO \<in> set (MI_Operands MI). \<not> handledKind MO))"
proof (intro conjI impI)
  assume "\<not> handledKind MO"
  then show "LowerOperand env MO offset = Inl (Unreachable ''Unknown operand type'')"
    by (rule LowerOperand_unhandled)
next
  assume "\<not> handledKind MO"
  then show "LowerSymbolOperand env MO offset = Inl (Unreachable ''<unknown operand type>'')"
    by (cases MO) (simp_all add: LowerSymbolOperand_def)
next
  assume "handledKind MO"
  then show "\<exists>MCOp. LowerOperand env MO offset = Inr MCOp"
    by (rule LowerOperand_handled)
next
  show "(\<exists>e. Lower env MI OutMI = Inl e) \<longleftrightarrow> (\<exists>MO \<in> set (MI_Operands MI). \<not> handledKind MO)"
  proof (cases "list_all handledKind (MI_Operands MI)")
    case True
    then show ?thesis
      by (simp add: Lower_def LowerLoop_emitted list_all_iff)
  next
    case False
    then show ?thesis
      by (simp add: Lower_def LowerLoop_unhandled list_all_iff)
  qed
qed

text \<open>A frame index aborts, a global address does not.\<close>

theorem LowerOperand_aborts_iff_unhandled_witness:
  "\<not> handledKind (MO_FrameIndex 0 4)
   \<and> LowerOperand exampleEnv (MO_FrameIndex 0 4) 0 = Inl (Unreachable ''Unknown operand type'')
   \<and> handledKind (MO_GlobalAddress ''g'' 5)
   \<and> (\<exists>MCOp. LowerOperand exampleEnv (MO_GlobalAddress ''g'' 5) 0 = Inr MCOp)
   \<and> (\<exists>MO \<in> set (MI_Operands \<lparr>MI_Opcode = 7, MI_Operands = [MO_Register 1, MO_FrameIndex 0 4]\<rparr>).
         \<not> handledKind MO)
   \<and> (\<exists>e. Lower exampleEnv \<lparr>MI_Opcode = 7, MI_Operands = [MO_Register 1, MO_FrameIndex 0 4]\<rparr> emptyInst = Inl e)"
proof -
  have u: "\<not> handledKind (MO_FrameIndex 0 4)" by simp
  have h: "handledKind (MO_GlobalAddress ''g'' 5)" by simp
  have m: "\<exists>MO \<in> set (MI_Operands \<lparr>MI_Opcode = 7, MI_Operands = [MO_Register 1, MO_FrameIndex 0 4]\<rparr>).
             \<not> handledKind MO" by simp
  from u h m
    LowerOperand_aborts_iff_unhandled [of "MO_FrameIndex 0 4" exampleEnv 0
      "\<lparr>MI_Opcode = 7, MI_Operands = [MO_Register 1, MO_FrameIndex 0 4]\<rparr>" emptyInst]
    LowerOperand_aborts_iff_unhandled [of "MO_GlobalAddress ''g'' 5" exampleEnv 0
      "\<lparr>MI_Opcode = 7, MI_Operands = [MO_Register 1, MO_FrameIndex 0 4]\<rparr>" emptyInst]
  show ?thesis by blast
qed


section \<open>Claims about frame lowering and frame-index elimination\<close>

text \<open>
  C5. For a call-frame pseudo instruction at position \<open>MI\<close> of its block,
  \<open>eliminateCallFramePseudoInstr\<close> deletes exactly that instruction: the block has one
  instruction less, nothing is put in its place, the instructions before it keep their
  positions and contents, and those after it move up by one unchanged. The iterator
  returned is the position of the instruction that followed.
\<close>

theorem eliminateCallFramePseudoInstr_erases:
  assumes "MI < length MBB"
  shows "\<exists>MBB'. eliminateCallFramePseudoInstr MF MBB MI = Some (MBB', MI)
           \<and> MBB' = take MI MBB @ drop (Suc MI) MBB
           \<and> length MBB' + 1 = length MBB
           \<and> (\<forall>k < MI. MBB' ! k = MBB ! k)
           \<and> (\<forall>k. MI \<le> k \<and> k < length MBB' \<longrightarrow> MBB' ! k = MBB ! Suc k)"
proof -
  let ?B = "take MI MBB @ drop (Suc MI) MBB"
  have e: "eliminateCallFramePseudoInstr MF MBB MI = Some (?B, MI)"
    using assms by (simp add: eliminateCallFramePseudoInstr_def MBB_erase_def)
  have l: "length ?B + 1 = length MBB"
    using assms by simp
  have before: "\<forall>k < MI. ?B ! k = MBB ! k"
    using assms by (simp add: nth_append)
  have after: "\<forall>k. MI \<le> k \<and> k < length ?B \<longrightarrow> ?B ! k = MBB ! Suc k"
    using assms by (auto simp: nth_append min_def)
  from e l before after show ?thesis by blast
qed

text \<open>Erasing the middle instruction of the example block leaves the first and the last.\<close>

theorem eliminateCallFramePseudoInstr_erases_witness:
  "(1 :: nat) < length exampleBlock
   \<and> eliminateCallFramePseudoInstr () exampleBlock 1 =
       Some ([\<lparr>MI_Opcode = 1, MI_Operands = [MO_Register 0, MO_Immediate 3]\<rparr>,
              \<lparr>MI_Opcode = 2, MI_Operands = [MO_Register 2, MO_FrameIndex 1 4]\<rparr>], 1)"
proof -
  have h: "(1 :: nat) < length exampleBlock" by (simp add: exampleBlock_def)
  from eliminateCallFramePseudoInstr_erases [OF h, of "()"] obtain MBB'
    where "eliminateCallFramePseudoInstr () exampleBlock 1 = Some (MBB', 1)"
      and "MBB' = take 1 exampleBlock @ drop (Suc 1) exampleBlock"
    by blast
  moreover have "take 1 exampleBlock @ drop (Suc 1) exampleBlock =
      [\<lparr>MI_Opcode = 1, MI_Operands = [MO_Register 0, MO_Immediate 3]\<rparr>,
       \<lparr>MI_Opcode = 2, MI_Operands = [MO_Register 2, MO_FrameIndex 1 4]\<rparr>]"
    by (simp add: exampleBlock_def)
  ultimately show ?thesis using h by simp
qed

text \<open>
  C2. For an instruction with a \<open>FrameIndex(slot, offset)\<close> operand and the concrete
  offset \<open>frame_layout[slot] + offset + stack_adjustment\<close>: if the concrete offset is in
  the immediate range, the operand is rewritten to the frame base register and the
  concrete offset as immediate, the block keeps its length and only this instruction
  changes; otherwise exactly one materialization instruction is inserted immediately
  before the instruction, whose operand now names the materialized address register.
  In both cases the memory operand addresses frame base plus concrete offset.
\<close>

theorem eliminateFrameIndex_rewrites:
  assumes "MI < length MBB"
    and "FIOperandNum < length (MI_Operands (MBB ! MI))"
    and "MI_Operands (MBB ! MI) ! FIOperandNum = MO_FrameIndex slot offset"
    and "frame_layout F slot = Some slotOffset"
  shows "(inImmRange F (slotOffset + offset + scast SPAdj) \<longrightarrow>
            (\<exists>I'. eliminateFrameIndex F MBB MI SPAdj FIOperandNum = Some (MBB[MI := I'])
               \<and> length (MBB[MI := I']) = length MBB
               \<and> MI_Opcode I' = MI_Opcode (MBB ! MI)
               \<and> MI_Operands I' = take FIOperandNum (MI_Operands (MBB ! MI))
                    @ [MO_Register (FrameReg F), MO_Immediate (slotOffset + offset + scast SPAdj)]
                    @ drop (Suc FIOperandNum) (MI_Operands (MBB ! MI))
               \<and> memOperandAddress regs I' FIOperandNum =
                    Some (regs (FrameReg F) + (slotOffset + offset + scast SPAdj))))
       \<and> (\<not> inImmRange F (slotOffset + offset + scast SPAdj) \<longrightarrow>
            (\<exists>Mat I' regs'.
               eliminateFrameIndex F MBB MI SPAdj FIOperandNum =
                 Some (take MI MBB @ [Mat, I'] @ drop (Suc MI) MBB)
               \<and> length (take MI MBB @ [Mat, I'] @ drop (Suc MI) MBB) = length MBB + 1
               \<and> Mat = materialize F (slotOffset + offset + scast SPAdj)
               \<and> MI_Opcode I' = MI_Opcode (MBB ! MI)
               \<and> MI_Operands I' = take FIOperandNum (MI_Operands (MBB ! MI))
                    @ [MO_Register (AddrReg F), MO_Immediate 0]
                    @ drop (Suc FIOperandNum) (MI_Operands (MBB ! MI))
               \<and> execMaterialize F Mat regs = Some regs'
               \<and> memOperandAddress regs' I' FIOperandNum =
                    Some (regs (FrameReg F) + (slotOffset + offset + scast SPAdj))))"
proof (intro conjI impI)
  let ?c = "slotOffset + offset + scast SPAdj"
  let ?ops = "MI_Operands (MBB ! MI)"
  {
    assume r: "inImmRange F ?c"
    let ?I = "replaceOperand (MBB ! MI) FIOperandNum [MO_Register (FrameReg F), MO_Immediate ?c]"
    have "eliminateFrameIndex F MBB MI SPAdj FIOperandNum = Some (MBB[MI := ?I])"
      using assms r by (simp add: eliminateFrameIndex_def concreteOffset_def)
    moreover have "memOperandAddress regs ?I FIOperandNum = Some (regs (FrameReg F) + ?c)"
      using assms(2) by (simp add: memOperandAddress_def replaceOperand_def min_def)
    ultimately show "\<exists>I'. eliminateFrameIndex F MBB MI SPAdj FIOperandNum = Some (MBB[MI := I'])
               \<and> length (MBB[MI := I']) = length MBB
               \<and> MI_Opcode I' = MI_Opcode (MBB ! MI)
               \<and> MI_Operands I' = take FIOperandNum ?ops
                    @ [MO_Register (FrameReg F), MO_Immediate ?c]
                    @ drop (Suc FIOperandNum) ?ops
               \<and> memOperandAddress regs I' FIOperandNum = Some (regs (FrameReg F) + ?c)"
      by (intro exI [of _ ?I]) (simp add: replaceOperand_def)
  }
  {
    assume r: "\<not> inImmRange F ?c"
    let ?I = "replaceOperand (MBB ! MI) FIOperandNum [MO_Register (AddrReg F), MO_Immediate 0]"
    let ?regs = "regs(AddrReg F := regs (FrameReg F) + ?c)"
    have "eliminateFrameIndex F MBB MI SPAdj FIOperandNum =
            Some (take MI MBB @ [materialize F ?c, ?I] @ drop (Suc MI) MBB)"
      using assms r by (simp add: eliminateFrameIndex_def concreteOffset_def)
    moreover have "length (take MI MBB @ [materialize F ?c, ?I] @ drop (Suc MI) MBB) = length MBB + 1"
      using assms(1) by simp
    moreover have "execMaterialize F (materialize F ?c) regs = Some ?regs"
      by (simp add: execMaterialize_def materialize_def)
    moreover have "memOperandAddress ?regs ?I FIOperandNum = Some (regs (FrameReg F) + ?c)"
      using assms(2) by (simp add: memOperandAddress_def replaceOperand_def min_def)
    ultimately show "\<exists>Mat I' regs'.
               eliminateFrameIndex F MBB MI SPAdj FIOperandNum =
                 Some (take MI MBB @ [Mat, I'] @ drop (Suc MI) MBB)
               \<and> length (take MI MBB @ [Mat, I'] @ drop (Suc MI) MBB) = length MBB + 1
               \<and> Mat = materialize F ?c
               \<and> MI_Opcode I' = MI_Opcode (MBB ! MI)
               \<and> MI_Operands I' = take FIOperandNum ?ops
                    @ [MO_Register (AddrReg F), MO_Immediate 0]
                    @ drop (Suc FIOperandNum) ?ops
               \<and> execMaterialize F Mat regs = Some regs'
               \<and> memOperandAddress regs' I' FIOperandNum = Some (regs (FrameReg F) + ?c)"
      by (intro exI [of _ "materialize F ?c"] exI [of _ ?I] exI [of _ ?regs])
         (simp add: replaceOperand_def)
  }
qed

text \<open>
  In the example frame the slot at offset 8 stays in the range \<open>-128 .. 127\<close> and the
  slot at offset 1000 does not.
\<close>

theorem eliminateFrameIndex_rewrites_witness:
  "(1 :: nat) < length exampleBlock
   \<and> (1 :: nat) < length (MI_Operands (exampleBlock ! 1))
   \<and> MI_Operands (exampleBlock ! 1) ! 1 = MO_FrameIndex 0 4
   \<and> frame_layout exampleFrame 0 = Some 8
   \<and> inImmRange exampleFrame (8 + 4 + scast (0 :: 32 word))
   \<and> (\<exists>I'. eliminateFrameIndex exampleFrame exampleBlock 1 0 1 = Some (exampleBlock[1 := I'])
          \<and> MI_Operands I' = [MO_Register 1, MO_Register 6, MO_Immediate 12])
   \<and> (2 :: nat) < length exampleBlock
   \<and> (1 :: nat) < length (MI_Operands (exampleBlock ! 2))
   \<and> MI_Operands (exampleBlock ! 2) ! 1 = MO_FrameIndex 1 4
   \<and> frame_layout exampleFrame 1 = Some 1000
   \<and> \<not> inImmRange exampleFrame (1000 + 4 + scast (0 :: 32 word))
   \<and> (\<exists>Mat I'. eliminateFrameIndex exampleFrame exampleBlock 2 0 1 =
                   Some (take 2 exampleBlock @ [Mat, I'] @ drop (Suc 2) exampleBlock)
          \<and> MI_Operands Mat = [MO_Register 5, MO_Register 6, MO_Immediate 1004]
          \<and> MI_Operands I' = [MO_Register 2, MO_Register 5, MO_Immediate 0])"
proof -
  have a1: "(1 :: nat) < length exampleBlock" and a2: "(1 :: nat) < length (MI_Operands (exampleBlock ! 1))"
    and a3: "MI_Operands (exampleBlock ! 1) ! 1 = MO_FrameIndex 0 4"
    and a4: "frame_layout exampleFrame 0 = Some 8"
    by (simp_all add: exampleBlock_def exampleFrame_def)
  have a5: "inImmRange exampleFrame (8 + 4 + scast (0 :: 32 word))"
    by (simp add: inImmRange_def exampleFrame_def)
  have b1: "(2 :: nat) < length exampleBlock" and b2: "(1 :: nat) < length (MI_Operands (exampleBlock ! 2))"
    and b3: "MI_Operands (exampleBlock ! 2) ! 1 = MO_FrameIndex 1 4"
    and b4: "frame_layout exampleFrame 1 = Some 1000"
    by (simp_all add: exampleBlock_def exampleFrame_def)
  have b5: "\<not> inImmRange exampleFrame (1000 + 4 + scast (0 :: 32 word))"
    by (simp add: inImmRange_def exampleFrame_def)
  from eliminateFrameIndex_rewrites [OF a1 a2 a3 a4, of 0 "\<lambda>r. 0"] a5
  obtain I' where "eliminateFrameIndex exampleFrame exampleBlock 1 0 1 = Some (exampleBlock[1 := I'])"
    and "MI_Operands I' = take 1 (MI_Operands (exampleBlock ! 1))
           @ [MO_Register (FrameReg exampleFrame), MO_Immediate (8 + 4 + scast (0 :: 32 word))]
           @ drop (Suc 1) (MI_Operands (exampleBlock ! 1))"
    by blast
  moreover have "take 1 (MI_Operands (exampleBlock ! 1))
           @ [MO_Register (FrameReg exampleFrame), MO_Immediate (8 + 4 + scast (0 :: 32 word))]
           @ drop (Suc 1) (MI_Operands (exampleBlock ! 1)) = [MO_Register 1, MO_Register 6, MO_Immediate 12]"
    by (simp add: exampleBlock_def exampleFrame_def)
  ultimately have A: "\<exists>I'. eliminateFrameIndex exampleFrame exampleBlock 1 0 1 = Some (exampleBlock[1 := I'])
          \<and> MI_Operands I' = [MO_Register 1, MO_Register 6, MO_Immediate 12]"
    by auto
  from eliminateFrameIndex_rewrites [OF b1 b2 b3 b4, of 0 "\<lambda>r. 0"] b5
  obtain Mat J where "eliminateFrameIndex exampleFrame exampleBlock 2 0 1 =
                   Some (take 2 exampleBlock @ [Mat, J] @ drop (Suc 2) exampleBlock)"
    and "Mat = materialize exampleFrame (1000 + 4 + scast (0 :: 32 word))"
    and "MI_Operands J = take 1 (MI_Operands (exampleBlock ! 2))
           @ [MO_Register (AddrReg exampleFrame), MO_Immediate 0]
           @ drop (Suc 1) (MI_Operands (exampleBlock ! 2))"
    by blast
  moreover have "MI_Operands (materialize exampleFrame (1000 + 4 + scast (0 :: 32 word))) =
      [MO_Register 5, MO_Register 6, MO_Immediate 1004]"
    by (simp add: materialize_def exampleFrame_def)
  moreover have "take 1 (MI_Operands (exampleBlock ! 2))
           @ [MO_Register (AddrReg exampleFrame), MO_Immediate 0]
           @ drop (Suc 1) (MI_Operands (exampleBlock ! 2)) = [MO_Register 2, MO_Register 5, MO_Immediate 0]"
    by (simp add: exampleBlock_def exampleFrame_def)
  ultimately have B: "\<exists>Mat I'. eliminateFrameIndex exampleFrame exampleBlock 2 0 1 =
                   Some (take 2 exampleBlock @ [Mat, I'] @ drop (Suc 2) exampleBlock)
          \<and> MI_Operands Mat = [MO_Register 5, MO_Register 6, MO_Immediate 1004]
          \<and> MI_Operands I' = [MO_Register 2, MO_Register 5, MO_Immediate 0]"
    by auto
  from a1 a2 a3 a4 a5 A b1 b2 b3 b4 b5 B show ?thesis by blast
qed

section \<open>Claims about the source-manager utilities\<close>

text \<open>
  C8. When no URI can be built for an included buffer, \<open>gatherIncludeFiles\<close> consumes
  the error and skips that buffer: the round leaves \<open>includes\<close> as it was and the loop
  goes on with the remaining buffers. The whole gathering gives what it gives when the
  buffers without a URI are left out of the loop, so a failure neither aborts it nor
  drops another include.
\<close>

theorem gatherIncludeFiles_skips_failed_URI:
  "(uriFails L sm i \<longrightarrow>
      gatherStep L sm i incs = Inr incs
      \<and> gatherLoop L sm (i # rest) incs = gatherLoop L sm rest incs)
   \<and> gatherIncludeFiles L sm incs =
       gatherLoop L sm (filter (\<lambda>i. \<not> uriFails L sm i) [1..<getNumBuffers sm]) incs"
  by (simp add: uriFails_gatherStep gatherLoop_filter gatherIncludeFiles_def)

text \<open>
  In the example source manager the second of three includes has no URI; the first and
  the third are gathered.
\<close>

theorem gatherIncludeFiles_skips_failed_URI_witness:
  "uriFails exampleLib exampleSM 2
   \<and> gatherStep exampleLib exampleSM 2 [] = Inr []
   \<and> gatherLoop exampleLib exampleSM [2, 3] [] = gatherLoop exampleLib exampleSM [3] []
   \<and> gatherIncludeFiles exampleLib exampleSM [] =
       Inr [\<lparr>inc_uri = ''file:///src/a.td'', inc_range = \<lparr>Start = SMLoc 1, End = SMLoc 4\<rparr>\<rparr>,
            \<lparr>inc_uri = ''file:///lib/c.td'', inc_range = \<lparr>Start = SMLoc 9, End = SMLoc 12\<rparr>\<rparr>]"
proof -
  have f: "uriFails exampleLib exampleSM 2"
    by (simp add: uriFails_def includePath_def exampleLib_def exampleSM_def)
  have e: "gatherLoop exampleLib exampleSM
             (filter (\<lambda>i. \<not> uriFails exampleLib exampleSM i) [1..<getNumBuffers exampleSM]) [] =
       Inr [\<lparr>inc_uri = ''file:///src/a.td'', inc_range = \<lparr>Start = SMLoc 1, End = SMLoc 4\<rparr>\<rparr>,
            \<lparr>inc_uri = ''file:///lib/c.td'', inc_range = \<lparr>Start = SMLoc 9, End = SMLoc 12\<rparr>\<rparr>]"
    by code_simp
  from f e gatherIncludeFiles_skips_failed_URI [of exampleLib exampleSM 2 "[]" "[3]"]
  show ?thesis by simp
qed

text \<open>
  C10. For an invalid location \<open>convertTokenLocToRange\<close> returns the default-constructed
  range, whatever the identifier characters and whatever the memory holds, so no read
  through the pointer takes place. For a valid location the pointer is read: if it
  cannot be read, that read is where the function faults.
\<close>

theorem convertTokenLocToRange_invalid:
  "(\<not> isValidLoc loc \<longrightarrow>
      convertTokenLocToRange mem loc identifierChars = Inr \<lparr>Start = SMLoc 0, End = SMLoc 0\<rparr>)
   \<and> (isValidLoc loc \<and> deref mem (getPointer loc) = None \<longrightarrow>
        convertTokenLocToRange mem loc identifierChars = Inl (ReadOutsideMemory (getPointer loc)))"
  by (simp add: convertTokenLocToRange_def emptyRange_def)

text \<open>
  With no readable memory the null location gives the empty range and the location 3
  faults at 3.
\<close>

theorem convertTokenLocToRange_invalid_witness:
  "\<not> isValidLoc (SMLoc 0)
   \<and> convertTokenLocToRange [] (SMLoc 0) ''$'' = Inr \<lparr>Start = SMLoc 0, End = SMLoc 0\<rparr>
   \<and> isValidLoc (SMLoc 3) \<and> deref [] (getPointer (SMLoc 3)) = None
   \<and> convertTokenLocToRange [] (SMLoc 3) ''$'' = Inl (ReadOutsideMemory 3)"
proof -
  have a: "\<not> isValidLoc (SMLoc 0)" by (simp add: isValidLoc_def)
  have b: "isValidLoc (SMLoc 3) \<and> deref [] (getPointer (SMLoc 3)) = None"
    by (simp add: isValidLoc_def deref_def)
  from a b convertTokenLocToRange_invalid [of "SMLoc 0" "[]" "''$''"]
    convertTokenLocToRange_invalid [of "SMLoc 3" "[]" "''$''"]
  show ?thesis by simp
qed

end
